theory Spec2Isabelle
  imports Main "HOL-Library.Product_Lexorder" "HOL-Library.Extended_Nat"
begin

section \<open>The Tasmota version checker (src/tasmotaVersionChecker.ts)\<close>

text \<open>
  The class \<^verbatim>\<open>TasmotaVersionChecker\<close> keeps the last known Tasmota release in the field
  \<^verbatim>\<open>lastTasmotaVersion\<close>, mirrors it in the file \<^verbatim>\<open>/userdata/tasmota.ver\<close>, and once a day
  asks GitHub for the latest release and fires the flow card \<^verbatim>\<open>new_tasmota_version\<close> when
  the release is newer.

  Numbers. The three fields of a version are JavaScript numbers, IEEE doubles. The
  code makes them with \<^verbatim>\<open>Number\<close> from strings of decimal digits only, so a field is a
  double that holds a non-negative integer, or \<^verbatim>\<open>Infinity\<close>; the fields are modelled as
  \<^typ>\<open>enat\<close>, a double by the natural number it holds. \<^verbatim>\<open>Number(digits)\<close> rounds the
  decimal value of the digits to the nearest double and the template literal writes the
  shortest digits that read back as the same double, as ECMAScript's \<^verbatim>\<open>Number::toString\<close>
  says.

  Strings. A JavaScript string is a list of code units and is modelled as a list of
  characters; the pattern of line 26 looks for the letter v, the dot and the ten ASCII
  digits only, and every other character fails it alike.
\<close>

subsection \<open>Versions\<close>

record version =
  major :: enat
  minor :: enat
  revision :: enat

text \<open>The object \<^verbatim>\<open>{major: 0, minor: 0, revision: 0}\<close> of lines 28 and 82.\<close>

definition sentinel :: version where
  "sentinel = \<lparr>major = 0, minor = 0, revision = 0\<rparr>"

subsection \<open>The regular expression of \<^verbatim>\<open>parseVersionString\<close>\<close>

text \<open>The class \<^verbatim>\<open>\d\<close> of a JavaScript regular expression: the ten ASCII digits.\<close>

definition isDigit :: "char \<Rightarrow> bool" where
  "isDigit c = (c \<in> set ''0123456789'')"

text \<open>
  \<^verbatim>\<open>\d+\<close> at the head of a string: the greedy run of digits and the rest, or no match
  when the run is empty. What follows the group in the pattern is a dot or the end of
  the input, neither of which a digit matches, so giving digits back never helps.
\<close>

definition digitRun :: "string \<Rightarrow> (string \<times> string) option" where
  "digitRun s =
     (if takeWhile isDigit s = [] then None
      else Some (takeWhile isDigit s, dropWhile isDigit s))"

text \<open>A literal character at the head of a string: the rest, or no match.\<close>

definition literal :: "char \<Rightarrow> string \<Rightarrow> string option" where
  "literal c s = (case s of [] \<Rightarrow> None | x # r \<Rightarrow> if x = c then Some r else None)"

text \<open>
  \<^verbatim>\<open>versionString.match(/^v(?<major>\d+)\.(?<minor>\d+)\.(?<revision>\d+)$/)\<close>:
  the three groups, or \<open>None\<close> for \<^verbatim>\<open>null\<close>. The pattern has no \<^verbatim>\<open>m\<close> flag, so \<^verbatim>\<open>^\<close> and
  \<^verbatim>\<open>$\<close> are the two ends of the input.
\<close>

definition versionMatch :: "string \<Rightarrow> (string \<times> string \<times> string) option" where
  "versionMatch s =
     (case literal CHR ''v'' s of None \<Rightarrow> None | Some r0 \<Rightarrow>
      case digitRun r0 of None \<Rightarrow> None | Some (a, r1) \<Rightarrow>
      case literal CHR ''.'' r1 of None \<Rightarrow> None | Some r2 \<Rightarrow>
      case digitRun r2 of None \<Rightarrow> None | Some (b, r3) \<Rightarrow>
      case literal CHR ''.'' r3 of None \<Rightarrow> None | Some r4 \<Rightarrow>
      case digitRun r4 of None \<Rightarrow> None | Some (c, r5) \<Rightarrow>
      if r5 = [] then Some (a, b, c) else None)"

text \<open>
  The language of the pattern, as the specification words it: the letter v, then three
  non-empty runs of decimal digits separated by dots, and nothing before or after.
\<close>

definition matchesPattern :: "string \<Rightarrow> bool" where
  "matchesPattern s =
     (\<exists>a b c. s = ''v'' @ a @ ''.'' @ b @ ''.'' @ c \<and>
        a \<noteq> [] \<and> b \<noteq> [] \<and> c \<noteq> [] \<and>
        list_all isDigit a \<and> list_all isDigit b \<and> list_all isDigit c)"

subsection \<open>Numbers and their text\<close>

definition digitValue :: "char \<Rightarrow> nat" where
  "digitValue c = of_char c - 48"

text \<open>The natural number that a string of decimal digits denotes.\<close>

definition decimalValue :: "string \<Rightarrow> nat" where
  "decimalValue s = foldl (\<lambda>n c. 10 * n + digitValue c) 0 s"

text \<open>
  A double has a significand of 53 bits. \<open>exponent n\<close> is the number of low bits that
  a natural number \<open>n\<close> has beyond 53, zero for a number below \<open>2^53\<close>.
\<close>

fun exponent :: "nat \<Rightarrow> nat" where
  "exponent n = (if n < 2 ^ 53 then 0 else Suc (exponent (n div 2)))"

declare exponent.simps [simp del]

text \<open>
  The double nearest to a natural number, a tie going to the even significand, and
  \<^verbatim>\<open>Infinity\<close> when the rounded value reaches \<open>2^1024\<close>.
\<close>

definition roundToDouble :: "nat \<Rightarrow> enat" where
  "roundToDouble n =
     (let e = exponent n; q = n div 2 ^ e; r = n mod 2 ^ e;
          m = (if 2 * r < 2 ^ e then q
               else if 2 ^ e < 2 * r then q + 1
               else if even q then q else q + 1)
      in if m * 2 ^ e < 2 ^ 1024 then enat (m * 2 ^ e) else \<infinity>)"

text \<open>
  \<^verbatim>\<open>Number(s)\<close> for a string of decimal digits: the double nearest to the value of the
  digits, as V8 computes it (ECMAScript leaves the last bit open for a string of more
  than 20 significant digits).
\<close>

definition Number :: "string \<Rightarrow> enat" where
  "Number s = roundToDouble (decimalValue s)"

text \<open>The values a field can hold: \<^verbatim>\<open>Infinity\<close>, or a natural number that is a double.\<close>

definition isNumber :: "enat \<Rightarrow> bool" where
  "isNumber x = (case x of enat n \<Rightarrow> roundToDouble n = enat n | \<infinity> \<Rightarrow> True)"

definition digitChar :: "nat \<Rightarrow> char" where
  "digitChar d = ''0123456789'' ! d"

fun decimalDigits :: "nat \<Rightarrow> nat list" where
  "decimalDigits n = (if n < 10 then [n] else decimalDigits (n div 10) @ [n mod 10])"

declare decimalDigits.simps [simp del]

definition decimal :: "nat \<Rightarrow> string" where
  "decimal n = map digitChar (decimalDigits n)"

text \<open>The significant digits of a number: its decimal digits without the zeros at the end.\<close>

definition significant :: "nat list \<Rightarrow> nat list" where
  "significant ds = rev (dropWhile (\<lambda>d. d = 0) (rev ds))"

text \<open>
  \<^verbatim>\<open>Number::toString\<close> writes a double \<open>x\<close> with the fewest significant digits that still
  read back as \<open>x\<close>. With \<open>p\<close> the power of ten at which the digits stop, the candidates
  are the multiples of \<open>p\<close> next to \<open>x\<close>, below and above. Of two that both read back as
  \<open>x\<close> the nearer to \<open>x\<close> is taken, and the one with the even last digit when they are
  equally near.
\<close>

definition pick :: "nat \<Rightarrow> nat \<Rightarrow> nat option" where
  "pick x p =
     (let lo = (x div p) * p; hi = lo + p;
          okLo = (roundToDouble lo = enat x); okHi = (roundToDouble hi = enat x)
      in if okLo \<and> okHi then
           Some (if x - lo < hi - x then lo
                 else if hi - x < x - lo then hi
                 else if even (x div p) then lo else hi)
         else if okLo then Some lo
         else if okHi then Some hi
         else None)"

text \<open>The first power of ten of a list, the greatest first, that has such a candidate.\<close>

fun firstPick :: "nat \<Rightarrow> nat list \<Rightarrow> nat" where
  "firstPick x [] = x"
| "firstPick x (p # ps) = (case pick x p of Some v \<Rightarrow> v | None \<Rightarrow> firstPick x ps)"

text \<open>
  The number that the digits written for \<open>x\<close> denote: one significant digit is tried
  first, then two, up to all the digits of \<open>x\<close>.
\<close>

definition shortest :: "nat \<Rightarrow> nat" where
  "shortest x = firstPick x (map (\<lambda>j. 10 ^ j) (rev [0..<length (decimalDigits x)]))"

text \<open>
  The text of a natural number \<open>v\<close> in the notation of \<^verbatim>\<open>Number::toString\<close>: a number
  with at most 21 digits is written in full; from \<open>10^21\<close> on the text is the first
  significant digit, a point and the other significant digits when there are any, and
  \<^verbatim>\<open>e+\<close> with the exponent.
\<close>

definition numberNotation :: "nat \<Rightarrow> string" where
  "numberNotation v =
     (if v < 10 ^ 21 then decimal v
      else
        let ds = decimalDigits v; sig = significant ds
        in map digitChar (take 1 sig) @
           (if length sig \<le> 1 then [] else ''.'' @ map digitChar (drop 1 sig)) @
           ''e+'' @ decimal (length ds - 1))"

text \<open>\<^verbatim>\<open>`${x}`\<close> for a field \<open>x\<close>.\<close>

definition numberToString :: "enat \<Rightarrow> string" where
  "numberToString x =
     (case x of enat n \<Rightarrow> numberNotation (shortest n) | \<infinity> \<Rightarrow> ''Infinity'')"

subsection \<open>\<^verbatim>\<open>parseVersionString\<close> (lines 25 to 34) and the text of line 73\<close>

definition parseVersionString :: "string \<Rightarrow> version" where
  "parseVersionString versionString =
     (case versionMatch versionString of
        None \<Rightarrow> \<lparr>major = 0, minor = 0, revision = 0\<rparr>
      | Some (a, b, c) \<Rightarrow> \<lparr>major = Number a, minor = Number b, revision = Number c\<rparr>)"

text \<open>The template \<^verbatim>\<open>`v${version.major}.${version.minor}.${version.revision}`\<close>.\<close>

definition versionText :: "version \<Rightarrow> string" where
  "versionText v =
     ''v'' @ numberToString (major v) @ ''.'' @ numberToString (minor v) @ ''.'' @
     numberToString (revision v)"

subsection \<open>The update test of lines 97 to 99\<close>

definition updateAvailable :: "version \<Rightarrow> version \<Rightarrow> bool" where
  "updateAvailable lastVersion newVersion =
     (major lastVersion < major newVersion \<or>
      major lastVersion = major newVersion \<and> minor lastVersion < minor newVersion \<or>
      major lastVersion = major newVersion \<and> minor lastVersion = minor newVersion \<and>
        revision lastVersion < revision newVersion)"

text \<open>
  The order of the specification: triples compared lexicographically on
  (major, minor, revision), here with the lexicographic order of the library on tuples.
\<close>

definition versionLess :: "version \<Rightarrow> version \<Rightarrow> bool" where
  "versionLess a b = ((major a, minor a, revision a) < (major b, minor b, revision b))"

subsection \<open>The collaborators: log, flow card, file, network\<close>

text \<open>The tokens of the flow card's trigger, lines 101 to 108.\<close>

record payload =
  new_major :: enat
  new_minor :: enat
  new_revision :: enat
  old_major :: enat
  old_minor :: enat
  old_revision :: enat

text \<open>
  The messages of the source, one constructor for each, with the values the text is
  built from. \<open>StatusError\<close> carries \<^verbatim>\<open>result?.statusCode\<close>, which is \<^verbatim>\<open>undefined\<close>
  (\<open>None\<close>) when the request failed.
\<close>

datatype message =
    Initialized version
  | NoVersionFile
  | CheckingReleases
  | HttpsRequestError
  | StatusError "int option"
  | LatestOnGithub version
  | WriteError
  | NoSavedVersion version
  | NewVersionAvailable version version

text \<open>
  What the checker does to the outside, in the order in which it does it:
  \<^verbatim>\<open>app.log\<close>, \<^verbatim>\<open>app.error\<close>, \<^verbatim>\<open>tasmotaUpdateTrigger.trigger\<close> and \<^verbatim>\<open>fs.writeFileSync\<close> on the
  version file with the text to write.
\<close>

datatype event =
    AppLog message
  | AppError message
  | Trigger payload
  | WriteFile string

definition notifications :: "event list \<Rightarrow> payload list" where
  "notifications tr = concat (map (\<lambda>ev. case ev of Trigger p \<Rightarrow> [p] | _ \<Rightarrow> []) tr)"

definition writes :: "event list \<Rightarrow> string list" where
  "writes tr = concat (map (\<lambda>ev. case ev of WriteFile t \<Rightarrow> [t] | _ \<Rightarrow> []) tr)"

text \<open>A value that \<^verbatim>\<open>JSON.parse\<close> returns.\<close>

datatype json =
    JNull
  | JBool bool
  | JNumber int
  | JString string
  | JArray "json list"
  | JObject "(string \<times> json) list"

text \<open>
  The promise of \<^verbatim>\<open>makeHttpsRequest\<close> (lines 120 to 143). It is rejected by the \<^verbatim>\<open>error\<close>
  event of the request: a failed connection, or a request destroyed by the timeout of
  line 135 before a response has come. It is resolved by the \<^verbatim>\<open>end\<close> event of the
  response, with a status code and a body. It never settles when the connection closes,
  or the timeout destroys the request, after the response has begun and before its end:
  \<^verbatim>\<open>request.destroy()\<close> carries no error, the request emits no \<^verbatim>\<open>error\<close> event any more and
  the response emits no \<^verbatim>\<open>end\<close>.
  The body is used by \<^verbatim>\<open>JSON.parse(result.body)\<close> alone and is held as what that call
  gives: \<open>None\<close> when the text is not JSON and the call throws a \<^verbatim>\<open>SyntaxError\<close>.
\<close>

datatype https_result =
    RequestRejected
  | Resolved int "json option"
  | NeverSettles

text \<open>
  Why a call of an async function of the class returns no value: an exception leaves it
  and rejects its promise, or it awaits a promise that never settles and stays
  suspended, its own promise pending for ever.
\<close>

datatype halt = SyntaxError | TypeError | TriggerRejected | Suspended

text \<open>
  \<^verbatim>\<open>fs.writeFileSync\<close> on the version file: it writes the text, or it throws and leaves
  the file absent or with some content (the old one, or a truncated one).
\<close>

datatype write_outcome =
    Written
  | WriteThrows "string option"

text \<open>
  The checker and the outside it acts on: the field \<^verbatim>\<open>lastTasmotaVersion\<close> (\<open>None\<close> is
  \<^verbatim>\<open>null\<close>, which line 93 tests for), the content of \<^verbatim>\<open>/userdata/tasmota.ver\<close> (\<open>None\<close>:
  no such file; a file that exists can be read) and the events so far.
\<close>

record state =
  lastTasmotaVersion :: "version option"
  versionFile :: "string option"
  trace :: "event list"

text \<open>
  What one check meets outside: the outcome of the request, whether the promise of
  the flow card's trigger resolves, and the outcome of a write to the version file.
\<close>

record cycle_env =
  request :: https_result
  triggerResolves :: bool
  writeOutcome :: write_outcome

definition emit :: "event list \<Rightarrow> state \<Rightarrow> state" where
  "emit evs s = s\<lparr>trace := trace s @ evs\<rparr>"

subsection \<open>\<^verbatim>\<open>getLatestTasmotaVersion\<close> (lines 49 to 69)\<close>

text \<open>
  \<^verbatim>\<open>info.tag_name\<close>: reading a property of \<^verbatim>\<open>null\<close> throws; an object gives the value of
  the key, or \<^verbatim>\<open>undefined\<close> (\<open>None\<close>) without the key; any other value gives \<^verbatim>\<open>undefined\<close>.
\<close>

definition tagName :: "json \<Rightarrow> halt + json option" where
  "tagName info =
     (case info of
        JNull \<Rightarrow> Inl TypeError
      | JObject members \<Rightarrow> Inr (map_of members ''tag_name'')
      | _ \<Rightarrow> Inr None)"

text \<open>
  \<^verbatim>\<open>this.parseVersionString(info.tag_name)\<close> on a value of type \<^verbatim>\<open>any\<close>: only a string
  has the method \<^verbatim>\<open>match\<close>, so \<^verbatim>\<open>versionString.match(...)\<close> throws a \<^verbatim>\<open>TypeError\<close> on
  \<^verbatim>\<open>undefined\<close> and on every other value.
\<close>

definition parseVersionValue :: "json option \<Rightarrow> halt + version" where
  "parseVersionValue x =
     (case x of
        Some (JString versionString) \<Rightarrow> Inr (parseVersionString versionString)
      | _ \<Rightarrow> Inl TypeError)"

text \<open>
  The result is \<open>Inr None\<close> for \<^verbatim>\<open>null\<close>, \<open>Inr (Some v)\<close> for a version and \<open>Inl\<close> for a
  call that returns nothing; with it come the events of the call. The \<^verbatim>\<open>catch\<close> of line
  57 turns a rejected request into \<^verbatim>\<open>undefined\<close>, after a log; on a request that never
  settles the \<^verbatim>\<open>await\<close> of line 50 never resumes. \<^verbatim>\<open>version\<close> is an object, so the test
  of line 66 holds.
\<close>

definition getLatestTasmotaVersion :: "https_result \<Rightarrow> (halt + version option) \<times> event list" where
  "getLatestTasmotaVersion result =
     (case result of
        RequestRejected \<Rightarrow>
          (Inr None, [AppLog HttpsRequestError, AppError (StatusError None)])
      | Resolved statusCode body \<Rightarrow>
          if statusCode \<noteq> 200 then (Inr None, [AppError (StatusError (Some statusCode))])
          else
            (case body of
               None \<Rightarrow> (Inl SyntaxError, [])
             | Some info \<Rightarrow>
                 (case tagName info of
                    Inl x \<Rightarrow> (Inl x, [])
                  | Inr tag \<Rightarrow>
                      (case parseVersionValue tag of
                         Inl x \<Rightarrow> (Inl x, [])
                       | Inr version \<Rightarrow> (Inr (Some version), [AppLog (LatestOnGithub version)]))))
      | NeverSettles \<Rightarrow> (Inl Suspended, []))"

subsection \<open>The version file (lines 71 to 86)\<close>

text \<open>The file before the call; the file after it and the events of the call.\<close>

definition saveTasmotaVersion ::
  "version \<Rightarrow> write_outcome \<Rightarrow> string option \<Rightarrow> string option \<times> event list" where
  "saveTasmotaVersion version outcome file =
     (case outcome of
        Written \<Rightarrow> (Some (versionText version), [WriteFile (versionText version)])
      | WriteThrows left \<Rightarrow> (left, [WriteFile (versionText version), AppLog WriteError]))"

definition loadTasmotaVersionFromFile :: "string option \<Rightarrow> version \<times> event list" where
  "loadTasmotaVersionFromFile file =
     (case file of
        None \<Rightarrow> (\<lparr>major = 0, minor = 0, revision = 0\<rparr>, [AppLog NoVersionFile])
      | Some tempStr \<Rightarrow> (parseVersionString tempStr, []))"

subsection \<open>The constructor (lines 12 to 23) and \<^verbatim>\<open>checkTasmotaReleases\<close> (lines 88 to 118)\<close>

text \<open>The checker that the constructor builds when the version file is \<open>file\<close>.\<close>

definition constructor :: "string option \<Rightarrow> state" where
  "constructor file =
     (case loadTasmotaVersionFromFile file of
        (version, evs) \<Rightarrow>
          \<lparr>lastTasmotaVersion = Some version, versionFile = file,
           trace = evs @ [AppLog (Initialized version)]\<rparr>)"

definition triggerTokens :: "version \<Rightarrow> version \<Rightarrow> payload" where
  "triggerTokens newVersion lastVersion =
     \<lparr>new_major = major newVersion, new_minor = minor newVersion,
      new_revision = revision newVersion,
      old_major = major lastVersion, old_minor = minor lastVersion,
      old_revision = revision lastVersion\<rparr>"

text \<open>
  Lines 92 to 112: the flag \<^verbatim>\<open>saveVersion\<close>, or the exception of a trigger whose promise
  is rejected, which the \<^verbatim>\<open>await\<close> of line 101 throws.
\<close>

definition decideSave :: "cycle_env \<Rightarrow> version \<Rightarrow> state \<Rightarrow> (halt + bool) \<times> state" where
  "decideSave env newVersion s =
     (case lastTasmotaVersion s of
        None \<Rightarrow> (Inr True, emit [AppLog (NoSavedVersion newVersion)] s)
      | Some lastVersion \<Rightarrow>
          if updateAvailable lastVersion newVersion then
            if triggerResolves env then
              (Inr True,
               emit [Trigger (triggerTokens newVersion lastVersion),
                     AppLog (NewVersionAvailable newVersion lastVersion)] s)
            else (Inl TriggerRejected, emit [Trigger (triggerTokens newVersion lastVersion)] s)
          else (Inr False, s))"

text \<open>Lines 113 to 116.\<close>

definition saveAndRemember :: "cycle_env \<Rightarrow> version \<Rightarrow> state \<Rightarrow> state" where
  "saveAndRemember env newVersion s =
     (case saveTasmotaVersion newVersion (writeOutcome env) (versionFile s) of
        (file, evs) \<Rightarrow>
          \<lparr>lastTasmotaVersion = Some newVersion, versionFile = file, trace = trace s @ evs\<rparr>)"

text \<open>
  One check: why the promise of \<^verbatim>\<open>checkTasmotaReleases\<close> does not resolve (an exception
  rejects it, or the check stays suspended), or \<open>None\<close> when it resolves, and the state
  after it.
\<close>

definition checkTasmotaReleases :: "cycle_env \<Rightarrow> state \<Rightarrow> halt option \<times> state" where
  "checkTasmotaReleases env s =
     (case getLatestTasmotaVersion (request env) of
        (Inl x, evs) \<Rightarrow> (Some x, emit (AppLog CheckingReleases # evs) s)
      | (Inr None, evs) \<Rightarrow> (None, emit (AppLog CheckingReleases # evs) s)
      | (Inr (Some newVersion), evs) \<Rightarrow>
          (case decideSave env newVersion (emit (AppLog CheckingReleases # evs) s) of
             (Inl x, s') \<Rightarrow> (Some x, s')
           | (Inr saveVersion, s') \<Rightarrow>
               (None, if saveVersion then saveAndRemember env newVersion s' else s')))"

text \<open>
  The timers of lines 16 to 21 run one check after the other; the promise of a check
  is dropped (\<^verbatim>\<open>.then()\<close>), so the next check starts from the state the last one left,
  whether it resolved, was rejected or stays suspended.
\<close>

fun checks :: "cycle_env list \<Rightarrow> state \<Rightarrow> state" where
  "checks [] s = s"
| "checks (env # envs) s = checks envs (snd (checkTasmotaReleases env s))"

section \<open>Properties\<close>

subsection \<open>Digits and the pattern\<close>

lemma digit_cases:
  "d < 10 \<Longrightarrow> d = 0 \<or> d = 1 \<or> d = 2 \<or> d = 3 \<or> d = 4 \<or> d = 5 \<or> d = 6 \<or> d = 7 \<or> d = 8 \<or> d = (9::nat)"
  by arith

lemma isDigit_digitChar: "d < 10 \<Longrightarrow> isDigit (digitChar d)"
  using digit_cases [of d] by (auto simp: isDigit_def digitChar_def)

lemma digitValue_digitChar: "d < 10 \<Longrightarrow> digitValue (digitChar d) = d"
  using digit_cases [of d] by (auto simp: digitValue_def digitChar_def)

lemma not_isDigit_dot: "\<not> isDigit CHR ''.''"
  by (simp add: isDigit_def)

lemma decimalDigits_small: "d \<in> set (decimalDigits n) \<Longrightarrow> d < 10"
proof (induction n arbitrary: d rule: decimalDigits.induct)
  case (1 n)
  show ?case
  proof (cases "n < 10")
    case True
    with "1.prems" show ?thesis by (simp add: decimalDigits.simps [of n])
  next
    case False
    with "1.prems" "1.IH" show ?thesis
      by (auto simp: decimalDigits.simps [of n])
  qed
qed

lemma decimalDigits_nonempty: "decimalDigits n \<noteq> []"
  by (simp add: decimalDigits.simps [of n])

lemma decimal_nonempty: "decimal n \<noteq> []"
  by (simp add: decimal_def decimalDigits_nonempty)

lemma decimal_digits: "list_all isDigit (decimal n)"
  by (simp add: decimal_def list_all_iff isDigit_digitChar decimalDigits_small)

lemma decimalValue_snoc: "decimalValue (s @ [c]) = 10 * decimalValue s + digitValue c"
  by (simp add: decimalValue_def)

lemma decimalValue_decimal: "decimalValue (decimal n) = n"
proof (induction n rule: decimalDigits.induct)
  case (1 n)
  show ?case
  proof (cases "n < 10")
    case True
    then show ?thesis
      by (simp add: decimal_def decimalDigits.simps [of n] decimalValue_def digitValue_digitChar)
  next
    case False
    with "1.IH" have "decimalValue (decimal (n div 10)) = n div 10" by simp
    with False show ?thesis
      by (simp add: decimal_def decimalDigits.simps [of n] decimalValue_snoc digitValue_digitChar)
  qed
qed

lemma Number_decimal: "Number (decimal n) = roundToDouble n"
  by (simp add: Number_def decimalValue_decimal)

lemma digitRun_append:
  assumes "a \<noteq> []" and "list_all isDigit a" and "r = [] \<or> \<not> isDigit (hd r)"
  shows "digitRun (a @ r) = Some (a, r)"
proof -
  have "takeWhile isDigit (a @ r) = a"
    using assms(2,3) by (cases r) (auto simp: list_all_iff takeWhile_append2 intro: takeWhile_eq_all_conv [THEN iffD2])
  moreover have "dropWhile isDigit (a @ r) = r"
    using assms(2,3) by (cases r) (auto simp: list_all_iff dropWhile_append2)
  ultimately show ?thesis using assms(1) by (simp add: digitRun_def)
qed

lemma digitRun_Some:
  assumes "digitRun s = Some (a, r)"
  shows "s = a @ r \<and> a \<noteq> [] \<and> list_all isDigit a"
  using assms by (auto simp: digitRun_def list_all_iff split: if_splits dest: set_takeWhileD)

lemma literal_Some: "literal c s = Some r \<longleftrightarrow> s = c # r"
  by (auto simp: literal_def split: list.splits)

lemma versionMatch_text:
  assumes "a \<noteq> []" "b \<noteq> []" "c \<noteq> []" "list_all isDigit a" "list_all isDigit b" "list_all isDigit c"
  shows "versionMatch (''v'' @ a @ ''.'' @ b @ ''.'' @ c) = Some (a, b, c)"
proof -
  have 1: "digitRun (a @ ''.'' @ b @ ''.'' @ c) = Some (a, ''.'' @ b @ ''.'' @ c)"
    using assms by (intro digitRun_append) (simp_all add: not_isDigit_dot)
  have 2: "digitRun (b @ ''.'' @ c) = Some (b, ''.'' @ c)"
    using assms by (intro digitRun_append) (simp_all add: not_isDigit_dot)
  have 3: "digitRun c = Some (c, [])"
    using assms digitRun_append [of c "[]"] by simp
  show ?thesis
    using 1 2 3 by (simp add: versionMatch_def literal_def)
qed

lemma versionMatch_Some:
  assumes "versionMatch s = Some (a, b, c)"
  shows "s = ''v'' @ a @ ''.'' @ b @ ''.'' @ c \<and> a \<noteq> [] \<and> b \<noteq> [] \<and> c \<noteq> [] \<and>
         list_all isDigit a \<and> list_all isDigit b \<and> list_all isDigit c"
  using assms
  by (auto simp: versionMatch_def literal_Some split: option.splits if_splits prod.splits
      dest!: digitRun_Some)

lemma matchesPattern_iff: "matchesPattern s \<longleftrightarrow> versionMatch s \<noteq> None"
proof
  assume "matchesPattern s"
  then show "versionMatch s \<noteq> None"
    by (auto simp: matchesPattern_def versionMatch_text simp del: append.simps)
next
  assume "versionMatch s \<noteq> None"
  then obtain a b c where "versionMatch s = Some (a, b, c)" by auto
  from versionMatch_Some [OF this] show "matchesPattern s"
    unfolding matchesPattern_def by blast
qed

lemma parseVersionString_no_match:
  "\<not> matchesPattern s \<Longrightarrow> parseVersionString s = sentinel"
  by (cases "versionMatch s") (simp_all add: matchesPattern_iff parseVersionString_def sentinel_def)

lemma parseVersionString_decimal:
  "parseVersionString (''v'' @ decimal x @ ''.'' @ decimal y @ ''.'' @ decimal z) =
     \<lparr>major = roundToDouble x, minor = roundToDouble y, revision = roundToDouble z\<rparr>"
  using versionMatch_text [of "decimal x" "decimal y" "decimal z"]
  by (simp add: parseVersionString_def decimal_nonempty decimal_digits Number_decimal)

subsection \<open>Doubles\<close>

lemma exponent_small: "n < 2 ^ 53 \<Longrightarrow> exponent n = 0"
  by (simp add: exponent.simps [of n])

lemma exponent_big: "\<not> n < 2 ^ 53 \<Longrightarrow> exponent n = Suc (exponent (n div 2))"
  by (simp add: exponent.simps [of n])

lemma roundToDouble_small: "n < 2 ^ 53 \<Longrightarrow> roundToDouble n = enat n"
proof -
  assume small: "n < 2 ^ 53"
  have "(2::nat) ^ 53 < 2 ^ 1024" by simp
  with small have "n < 2 ^ 1024" by (rule less_trans)
  with small show ?thesis by (simp add: roundToDouble_def exponent_small)
qed

lemma pick_rounds: "pick x p = Some v \<Longrightarrow> roundToDouble v = enat x"
  by (auto simp: pick_def Let_def split: if_splits)

lemma pick_cases: "pick x p = Some v \<Longrightarrow> v = (x div p) * p \<or> v = (x div p) * p + p"
  by (auto simp: pick_def Let_def split: if_splits)

lemma firstPick_rounds:
  "roundToDouble x = enat x \<Longrightarrow> roundToDouble (firstPick x ps) = enat x"
  by (induction ps) (auto split: option.splits dest: pick_rounds)

lemma shortest_rounds: "roundToDouble x = enat x \<Longrightarrow> roundToDouble (shortest x) = enat x"
  by (simp add: shortest_def firstPick_rounds)

lemma decimalDigits_bound: "n < 10 ^ length (decimalDigits n)"
proof (induction n rule: decimalDigits.induct)
  case (1 n)
  show ?case
  proof (cases "n < 10")
    case True
    then show ?thesis by (simp add: decimalDigits.simps [of n])
  next
    case False
    with "1.IH" have "n div 10 < 10 ^ length (decimalDigits (n div 10))" by simp
    then have "n < 10 * 10 ^ length (decimalDigits (n div 10))"
      by (simp add: div_less_iff_less_mult mult.commute)
    with False show ?thesis by (simp add: decimalDigits.simps [of n])
  qed
qed

lemma decimalDigits_length: "0 < m \<Longrightarrow> n < 10 ^ m \<Longrightarrow> length (decimalDigits n) \<le> m"
proof (induction n arbitrary: m rule: decimalDigits.induct)
  case (1 n)
  show ?case
  proof (cases "n < 10")
    case True
    with "1.prems" show ?thesis by (simp add: decimalDigits.simps [of n])
  next
    case False
    from "1.prems" obtain k where m: "m = Suc k" by (cases m) auto
    from False "1.prems" m have "0 < k" by (cases k) auto
    moreover from "1.prems" m have "n div 10 < 10 ^ k"
      by (simp add: div_less_iff_less_mult mult.commute)
    ultimately have "length (decimalDigits (n div 10)) \<le> k"
      using "1.IH" False by simp
    with False m show ?thesis by (simp add: decimalDigits.simps [of n])
  qed
qed

lemma pick_bound:
  assumes "pick x (10 ^ j) = Some v" and "x < 10 ^ d" and "j < d"
  shows "v \<le> 10 ^ d"
proof -
  have split: "(10::nat) ^ d = 10 ^ (d - j) * 10 ^ j"
    using assms(3) by (simp add: power_add [symmetric])
  with assms(2) have "x div 10 ^ j < 10 ^ (d - j)"
    by (simp add: div_less_iff_less_mult)
  then have "x div 10 ^ j + 1 \<le> 10 ^ (d - j)" by simp
  then have "(x div 10 ^ j + 1) * 10 ^ j \<le> 10 ^ (d - j) * 10 ^ j"
    by (rule mult_le_mono1)
  then have hi: "(x div 10 ^ j) * 10 ^ j + 10 ^ j \<le> 10 ^ d"
    using split by (simp add: algebra_simps)
  from pick_cases [OF assms(1)] show ?thesis
    using hi by auto
qed

lemma firstPick_bound:
  assumes "x < 10 ^ d" and "\<forall>p \<in> set ps. \<exists>j < d. p = 10 ^ j"
  shows "firstPick x ps \<le> 10 ^ d"
  using assms(2)
proof (induction ps)
  case Nil
  then show ?case using assms(1) by simp
next
  case (Cons p ps)
  then obtain j where j: "j < d" "p = 10 ^ j" by auto
  show ?case
  proof (cases "pick x p")
    case None
    then show ?thesis using Cons by simp
  next
    case (Some v)
    with j pick_bound [of x j v d] assms(1) show ?thesis by simp
  qed
qed

lemma shortest_bound:
  assumes "0 < d" and "x < 10 ^ d"
  shows "shortest x \<le> 10 ^ d"
proof -
  have len: "length (decimalDigits x) \<le> d"
    using assms by (rule decimalDigits_length)
  have "\<forall>p \<in> set (map (\<lambda>j. 10 ^ j) (rev [0..<length (decimalDigits x)])). \<exists>j < d. p = (10::nat) ^ j"
    using len by auto
  with assms(2) show ?thesis
    unfolding shortest_def by (rule firstPick_bound)
qed

lemma round_1e21: "roundToDouble 1000000000000000000000 = enat 1000000000000000000000"
  by (simp add: roundToDouble_def exponent_small exponent_big)

lemma shortest_below_1e21:
  assumes "roundToDouble x = enat x" and "x < 10 ^ 21"
  shows "shortest x < 10 ^ 21"
proof -
  have "shortest x \<le> 10 ^ 21"
    using shortest_bound [of 21 x] assms(2) by simp
  moreover have "shortest x \<noteq> 10 ^ 21"
  proof
    assume "shortest x = 10 ^ 21"
    with shortest_rounds [OF assms(1)] have "roundToDouble (10 ^ 21) = enat x" by simp
    with round_1e21 have "x = 10 ^ 21" by simp
    with assms(2) show False by simp
  qed
  ultimately show ?thesis by simp
qed


lemma Number_small: "decimalValue s < 2 ^ 53 \<Longrightarrow> Number s = enat (decimalValue s)"
  by (simp add: Number_def roundToDouble_small)

lemma enat_below_1e21: "enat n < 10 ^ 21 \<longleftrightarrow> n < 10 ^ 21"
proof -
  have "(10::enat) ^ 21 = enat (10 ^ 21)" by (simp add: enat_numeral)
  then have "enat n < 10 ^ 21 \<longleftrightarrow> enat n < enat (10 ^ 21)" by (simp only:)
  also have "\<dots> \<longleftrightarrow> n < 10 ^ 21" by (simp only: enat_ord_simps)
  finally show ?thesis .
qed

text \<open>Below \<open>10^21\<close> the text of a double is a string of digits that reads back as it.\<close>

lemma numberToString_below_1e21:
  assumes "isNumber x" and "x < 10 ^ 21"
  shows "\<exists>n. numberToString x = decimal n \<and> roundToDouble n = x"
proof (cases x)
  case (enat n)
  with assms(1) have double: "roundToDouble n = enat n" by (simp add: isNumber_def)
  from enat assms(2) have "n < 10 ^ 21" by (simp only: enat_below_1e21)
  with double have "shortest n < 10 ^ 21" by (rule shortest_below_1e21)
  then have "numberToString x = decimal (shortest n)"
    using enat by (simp add: numberToString_def numberNotation_def)
  with shortest_rounds [OF double] enat show ?thesis by auto
next
  case infinity
  with assms(2) show ?thesis by simp
qed

subsection \<open>Events and the order of versions\<close>

lemma notifications_append: "notifications (xs @ ys) = notifications xs @ notifications ys"
  by (simp add: notifications_def)

lemma getLatest_events:
  "getLatestTasmotaVersion r = (res, evs) \<Longrightarrow> notifications evs = [] \<and> writes evs = []"
  by (auto simp: getLatestTasmotaVersion_def notifications_def writes_def
      split: https_result.splits if_splits option.splits sum.splits)

lemma updateAvailable_lex: "updateAvailable a b = versionLess a b"
  by (auto simp: updateAvailable_def versionLess_def less_prod_def)

lemma versionLess_irrefl: "\<not> versionLess a a"
  by (simp add: versionLess_def)

lemma versionLess_asym: "versionLess a b \<Longrightarrow> \<not> versionLess b a"
  unfolding versionLess_def using less_not_sym by blast

text \<open>The field is never \<^verbatim>\<open>null\<close>: the constructor sets a version and a check keeps one.\<close>

lemma constructor_last: "\<exists>v. lastTasmotaVersion (constructor file) = Some v"
  by (simp add: constructor_def split: prod.splits)

lemma check_last:
  assumes "lastTasmotaVersion s = Some cur"
  shows "lastTasmotaVersion (snd (checkTasmotaReleases env s)) = Some cur \<or>
    (\<exists>new. lastTasmotaVersion (snd (checkTasmotaReleases env s)) = Some new \<and>
       updateAvailable cur new)"
  using assms
  by (auto simp: checkTasmotaReleases_def decideSave_def emit_def saveAndRemember_def
      split: prod.splits sum.splits option.splits if_splits)

lemma checks_last:
  "\<exists>v. lastTasmotaVersion s = Some v \<Longrightarrow> \<exists>v. lastTasmotaVersion (checks envs s) = Some v"
proof (induction envs arbitrary: s)
  case Nil
  then show ?case by simp
next
  case (Cons env envs)
  from Cons.prems obtain cur where "lastTasmotaVersion s = Some cur" by blast
  from check_last [OF this, of env]
  have "\<exists>v. lastTasmotaVersion (snd (checkTasmotaReleases env s)) = Some v" by blast
  then show ?case using Cons.IH by simp
qed

text \<open>Some values of the functions, for the examples below.\<close>

lemma numberToString_0: "numberToString 0 = ''0''"
  by (simp add: zero_enat_def numberToString_def shortest_def decimalDigits.simps pick_def
      roundToDouble_small numberNotation_def decimal_def digitChar_def)

lemma numberToString_1: "numberToString 1 = ''1''"
  by (simp add: one_enat_def numberToString_def shortest_def decimalDigits.simps pick_def
      roundToDouble_small numberNotation_def decimal_def digitChar_def)

lemma parse_v1_0_0: "parseVersionString ''v1.0.0'' = \<lparr>major = 1, minor = 0, revision = 0\<rparr>"
  by (simp add: parseVersionString_def versionMatch_def literal_def digitRun_def isDigit_def
      Number_small decimalValue_def digitValue_def enat_0 one_enat_def)

lemma parse_v1_0_1: "parseVersionString ''v1.0.1'' = \<lparr>major = 1, minor = 0, revision = 1\<rparr>"
  by (simp add: parseVersionString_def versionMatch_def literal_def digitRun_def isDigit_def
      Number_small decimalValue_def digitValue_def enat_0 one_enat_def)

lemma parse_v0_9_9: "parseVersionString ''v0.9.9'' = \<lparr>major = 0, minor = 9, revision = 9\<rparr>"
  by (simp add: parseVersionString_def versionMatch_def literal_def digitRun_def isDigit_def
      Number_small decimalValue_def digitValue_def enat_0 numeral_eq_enat)

lemma parse_v13_1_0: "parseVersionString ''v13.1.0'' = \<lparr>major = 13, minor = 1, revision = 0\<rparr>"
  by (simp add: parseVersionString_def versionMatch_def literal_def digitRun_def isDigit_def
      Number_small decimalValue_def digitValue_def enat_0 one_enat_def numeral_eq_enat)

lemma text_v1_0_1: "versionText \<lparr>major = 1, minor = 0, revision = 1\<rparr> = ''v1.0.1''"
  by (simp add: versionText_def numberToString_0 numberToString_1)

lemma constructor_v1_0_0:
  "constructor (Some ''v1.0.0'') =
     \<lparr>lastTasmotaVersion = Some \<lparr>major = 1, minor = 0, revision = 0\<rparr>,
      versionFile = Some ''v1.0.0'',
      trace = [AppLog (Initialized \<lparr>major = 1, minor = 0, revision = 0\<rparr>)]\<rparr>"
  by (simp add: constructor_def loadTasmotaVersionFromFile_def parse_v1_0_0)

lemma getLatest_v1_0_1:
  "getLatestTasmotaVersion (Resolved 200 (Some (JObject [(''tag_name'', JString ''v1.0.1'')]))) =
     (Inr (Some \<lparr>major = 1, minor = 0, revision = 1\<rparr>),
      [AppLog (LatestOnGithub \<lparr>major = 1, minor = 0, revision = 1\<rparr>)])"
  by (simp add: getLatestTasmotaVersion_def tagName_def parseVersionValue_def parse_v1_0_1)

lemma round_2e21: "roundToDouble 2000000000000000000000 = enat 2000000000000000000000"
  by (simp add: roundToDouble_def exponent_small exponent_big)

lemma pick_1e21:
  "pick 1000000000000000000000 1000000000000000000000 = Some 1000000000000000000000"
  by (simp add: pick_def round_1e21 round_2e21)

lemma length_1e21: "length (decimalDigits 1000000000000000000000) = 22"
  by (simp add: decimalDigits.simps)

lemma shortest_1e21: "shortest 1000000000000000000000 = 1000000000000000000000"
  by (simp add: shortest_def length_1e21 upt_conv_Cons pick_1e21)

lemma text_1e21:
  "versionText \<lparr>major = 1000000000000000000000, minor = 0, revision = 0\<rparr> = ''v1e+21.0.0''"
  by (simp add: versionText_def numberToString_0)
    (simp add: numeral_eq_enat numberToString_def shortest_1e21 numberNotation_def
      significant_def decimal_def decimalDigits.simps digitChar_def)

text \<open>
  Values that show the rounding. \<open>2^53 + 1\<close> is no double and \<open>10^21 - 1\<close> neither;
  \<open>2^64\<close> is a double and is written with 17 significant digits.
\<close>

lemma Number_rounds_to_even: "Number ''9007199254740993'' = 9007199254740992"
  by (simp add: Number_def decimalValue_def digitValue_def roundToDouble_def exponent_small
      exponent_big numeral_eq_enat)

lemma Number_21_nines: "Number ''999999999999999999999'' = 1000000000000000000000"
  by (simp add: Number_def decimalValue_def digitValue_def roundToDouble_def exponent_small
      exponent_big numeral_eq_enat)

lemma length_2_64: "length (decimalDigits 18446744073709551616) = 20"
  by (simp add: decimalDigits.simps)

lemma powers_20:
  "map (\<lambda>j. 10 ^ j) (rev [0..<20]) =
     [10000000000000000000, 1000000000000000000, 100000000000000000, 10000000000000000,
      1000000000000000, 100000000000000, 10000000000000, 1000000000000, 100000000000,
      10000000000, 1000000000, 100000000, 10000000, 1000000, 100000, 10000, 1000, 100, 10,
      1::nat]"
  by (simp add: upt_conv_Cons)

lemma shortest_2_64: "shortest 18446744073709551616 = 18446744073709552000"
  unfolding shortest_def length_2_64 powers_20
  by (simp only: firstPick.simps pick_def Let_def)
    (simp add: roundToDouble_def exponent_small exponent_big)

lemma numberToString_2_64: "numberToString 18446744073709551616 = ''18446744073709552000''"
  by (simp add: numeral_eq_enat numberToString_def shortest_2_64 numberNotation_def decimal_def
      decimalDigits.simps digitChar_def)

lemma parse_1e21: "parseVersionString ''v1e+21.0.0'' = \<lparr>major = 0, minor = 0, revision = 0\<rparr>"
  by (simp add: parseVersionString_def versionMatch_def literal_def digitRun_def isDigit_def)

lemma getLatest_v0_9_9:
  "getLatestTasmotaVersion (Resolved 200 (Some (JObject [(''tag_name'', JString ''v0.9.9'')]))) =
     (Inr (Some \<lparr>major = 0, minor = 9, revision = 9\<rparr>),
      [AppLog (LatestOnGithub \<lparr>major = 0, minor = 9, revision = 9\<rparr>)])"
  by (simp add: getLatestTasmotaVersion_def tagName_def parseVersionValue_def parse_v0_9_9)

lemma getLatest_v1_0_0:
  "getLatestTasmotaVersion (Resolved 200 (Some (JObject [(''tag_name'', JString ''v1.0.0'')]))) =
     (Inr (Some \<lparr>major = 1, minor = 0, revision = 0\<rparr>),
      [AppLog (LatestOnGithub \<lparr>major = 1, minor = 0, revision = 0\<rparr>)])"
  by (simp add: getLatestTasmotaVersion_def tagName_def parseVersionValue_def parse_v1_0_0)

lemma not_updateAvailable_sentinel: "\<not> updateAvailable cur sentinel"
  by (simp add: updateAvailable_def sentinel_def)

section \<open>The claims\<close>

text \<open>
  C1. With no version file at the start, \<^verbatim>\<open>loadTasmotaVersionFromFile\<close> returns the triple
  (0,0,0), and the first successful check is claimed to record the fetched version
  without a notification. The branch of line 93 that would do so tests for \<^verbatim>\<open>null\<close>,
  which the field never is: the loaded triple (0,0,0) is compared like any other version,
  and the first check that fetches \<^verbatim>\<open>v13.1.0\<close> calls the trigger, with (0,0,0) as the old
  version.
\<close>

theorem first_check_without_file_notifies:
  "loadTasmotaVersionFromFile None = (sentinel, [AppLog NoVersionFile]) \<and>
   lastTasmotaVersion (constructor None) = Some sentinel \<and>
   notifications (trace (snd (checkTasmotaReleases
      \<lparr>request = Resolved 200 (Some (JObject [(''tag_name'', JString ''v13.1.0'')])),
       triggerResolves = True, writeOutcome = Written\<rparr>
      (constructor None)))) =
     [\<lparr>new_major = 13, new_minor = 1, new_revision = 0,
       old_major = 0, old_minor = 0, old_revision = 0\<rparr>]"
  by (simp add: loadTasmotaVersionFromFile_def constructor_def checkTasmotaReleases_def
      getLatestTasmotaVersion_def tagName_def parseVersionValue_def parse_v13_1_0
      decideSave_def updateAvailable_def emit_def triggerTokens_def saveAndRemember_def
      saveTasmotaVersion_def notifications_def sentinel_def)

text \<open>
  C2. Parsing the text of a version gives the version back. As claimed, for every triple
  of non-negative integers, it fails; it holds for every triple whose fields are numbers
  below \<open>10^21\<close>, where a number is written as a string of digits.
\<close>

theorem parse_versionText_roundtrip:
  assumes "isNumber (major v)" and "isNumber (minor v)" and "isNumber (revision v)"
    and "major v < 10 ^ 21" and "minor v < 10 ^ 21" and "revision v < 10 ^ 21"
  shows "parseVersionString (versionText v) = v"
proof -
  obtain a where a: "numberToString (major v) = decimal a" "roundToDouble a = major v"
    using numberToString_below_1e21 [OF assms(1,4)] by blast
  obtain b where b: "numberToString (minor v) = decimal b" "roundToDouble b = minor v"
    using numberToString_below_1e21 [OF assms(2,5)] by blast
  obtain c where c: "numberToString (revision v) = decimal c" "roundToDouble c = revision v"
    using numberToString_below_1e21 [OF assms(3,6)] by blast
  have "parseVersionString (versionText v) =
          \<lparr>major = major v, minor = minor v, revision = revision v\<rparr>"
    using parseVersionString_decimal [of a b c] a b c by (simp add: versionText_def)
  then show ?thesis by simp
qed

theorem parse_versionText_roundtrip_witness:
  "isNumber (major \<lparr>major = 14, minor = 3, revision = 0\<rparr>) \<and>
   major \<lparr>major = 14, minor = 3, revision = 0\<rparr> < 10 ^ 21 \<and>
   parseVersionString (versionText \<lparr>major = 14, minor = 3, revision = 0\<rparr>) =
     \<lparr>major = 14, minor = 3, revision = 0\<rparr>"
proof -
  have numbers: "isNumber 14" "isNumber 3" "isNumber 0"
    by (simp_all add: isNumber_def numeral_eq_enat zero_enat_def roundToDouble_small)
  show ?thesis
    using parse_versionText_roundtrip [of "\<lparr>major = 14, minor = 3, revision = 0\<rparr>"] numbers
    by simp
qed

text \<open>
  From \<open>10^21\<close> on a number is written with an exponent, which the pattern does not
  match: \<open>10^21\<close> is a double, and the version (10^21, 0, 0) is saved as \<^verbatim>\<open>v1e+21.0.0\<close>
  and read back as (0,0,0).
\<close>

theorem roundtrip_fails_at_1e21:
  "isNumber 1000000000000000000000 \<and>
   versionText \<lparr>major = 1000000000000000000000, minor = 0, revision = 0\<rparr> = ''v1e+21.0.0'' \<and>
   parseVersionString (versionText \<lparr>major = 1000000000000000000000, minor = 0, revision = 0\<rparr>)
     = sentinel \<and>
   parseVersionString (versionText \<lparr>major = 1000000000000000000000, minor = 0, revision = 0\<rparr>)
     \<noteq> \<lparr>major = 1000000000000000000000, minor = 0, revision = 0\<rparr>"
  by (simp add: text_1e21 parse_1e21 sentinel_def)
    (simp add: isNumber_def numeral_eq_enat round_1e21)

text \<open>
  C3. Every string that does not match the anchored pattern, the letter v and three
  runs of digits separated by dots, is parsed to the sentinel (0,0,0); the function has
  no failure.
\<close>

theorem parse_malformed_sentinel:
  "\<not> matchesPattern s \<Longrightarrow> parseVersionString s = sentinel"
  by (rule parseVersionString_no_match)

theorem parse_malformed_sentinel_witness:
  "parseVersionString [] = sentinel \<and> parseVersionString ''v1.2'' = sentinel \<and>
   parseVersionString ''v1.x.3'' = sentinel \<and> parseVersionString ''1.2.3'' = sentinel \<and>
   parseVersionString '' v1.2.3'' = sentinel \<and> parseVersionString ''v1.2.3-rc1'' = sentinel"
  using parse_malformed_sentinel [of "[]"] parse_malformed_sentinel [of "''v1.2''"]
    parse_malformed_sentinel [of "''v1.x.3''"] parse_malformed_sentinel [of "''1.2.3''"]
    parse_malformed_sentinel [of "'' v1.2.3''"] parse_malformed_sentinel [of "''v1.2.3-rc1''"]
  by (simp add: matchesPattern_iff versionMatch_def literal_def digitRun_def isDigit_def)

text \<open>
  C4. The test \<^verbatim>\<open>updateAvailable\<close> of the check holds exactly when the new version is
  greater than the old one in the lexicographic order on (major, minor, revision): it
  holds from (1,2,3) to (1,2,4), and neither from (1,2,3) to (1,2,3) nor from (2,0,0) to
  (1,9,9).
\<close>

theorem updateAvailable_iff_lexicographic:
  "updateAvailable old new = versionLess old new \<and>
   updateAvailable \<lparr>major = 1, minor = 2, revision = 3\<rparr> \<lparr>major = 1, minor = 2, revision = 4\<rparr> \<and>
   \<not> updateAvailable \<lparr>major = 1, minor = 2, revision = 3\<rparr> \<lparr>major = 1, minor = 2, revision = 3\<rparr> \<and>
   \<not> updateAvailable \<lparr>major = 2, minor = 0, revision = 0\<rparr> \<lparr>major = 1, minor = 9, revision = 9\<rparr>"
  by (simp add: updateAvailable_lex) (simp add: versionLess_def less_prod_def)

text \<open>
  C5. When the request fails in transport or resolves with a status other than 200,
  \<^verbatim>\<open>getLatestTasmotaVersion\<close> is claimed to return \<^verbatim>\<open>null\<close> and the check to call no trigger,
  to write no file and to leave the field \<^verbatim>\<open>lastTasmotaVersion\<close> alone. The code misses
  one transport failure: when the connection closes, or the timeout of line 135 destroys
  the request, after the response has begun, the promise of \<^verbatim>\<open>makeHttpsRequest\<close> never
  settles. Then \<^verbatim>\<open>getLatestTasmotaVersion\<close> returns nothing, \<^verbatim>\<open>null\<close> no more than a version,
  and the check never resolves; it has logged its first line and done nothing else.
\<close>

theorem request_never_settles_no_null:
  "getLatestTasmotaVersion NeverSettles = (Inl Suspended, []) \<and>
   fst (getLatestTasmotaVersion NeverSettles) \<noteq> Inr None \<and>
   checkTasmotaReleases
     \<lparr>request = NeverSettles, triggerResolves = True, writeOutcome = Written\<rparr>
     (constructor (Some ''v1.0.0'')) =
   (Some Suspended,
    \<lparr>lastTasmotaVersion = Some \<lparr>major = 1, minor = 0, revision = 0\<rparr>,
     versionFile = Some ''v1.0.0'',
     trace = [AppLog (Initialized \<lparr>major = 1, minor = 0, revision = 0\<rparr>),
              AppLog CheckingReleases]\<rparr>)"
  by (simp add: constructor_v1_0_0 getLatestTasmotaVersion_def checkTasmotaReleases_def emit_def)

text \<open>
  What holds of the failures that settle the promise: a rejected request and a status
  other than 200 give \<^verbatim>\<open>null\<close>, and the check resolves with no call of the trigger, no
  write, and the file and the field as they were.
\<close>

lemma settled_failure_no_effect:
  assumes "request env = RequestRejected \<or>
           (\<exists>statusCode body. request env = Resolved statusCode body \<and> statusCode \<noteq> 200)"
  shows "fst (getLatestTasmotaVersion (request env)) = Inr None \<and>
    fst (checkTasmotaReleases env s) = None \<and>
    notifications (trace (snd (checkTasmotaReleases env s))) = notifications (trace s) \<and>
    writes (trace (snd (checkTasmotaReleases env s))) = writes (trace s) \<and>
    versionFile (snd (checkTasmotaReleases env s)) = versionFile s \<and>
    lastTasmotaVersion (snd (checkTasmotaReleases env s)) = lastTasmotaVersion s"
  using assms
  by (auto simp: getLatestTasmotaVersion_def checkTasmotaReleases_def emit_def
      notifications_def writes_def)

text \<open>
  C6. With the version file holding (1,0,0) and a check that fetches (1,0,1), when the
  trigger's promise resolves and the write succeeds: the trigger is called once, with
  the tokens new (1,0,1) and old (1,0,0), then the text of (1,0,1) is written to the
  file, and the field \<^verbatim>\<open>lastTasmotaVersion\<close> becomes (1,0,1).
\<close>

theorem update_from_1_0_0_to_1_0_1:
  assumes "getLatestTasmotaVersion (request env) =
             (Inr (Some \<lparr>major = 1, minor = 0, revision = 1\<rparr>), evs)"
    and "triggerResolves env"
    and "writeOutcome env = Written"
  shows "checkTasmotaReleases env (constructor (Some ''v1.0.0'')) =
    (None,
     \<lparr>lastTasmotaVersion = Some \<lparr>major = 1, minor = 0, revision = 1\<rparr>,
      versionFile = Some ''v1.0.1'',
      trace =
        [AppLog (Initialized \<lparr>major = 1, minor = 0, revision = 0\<rparr>), AppLog CheckingReleases] @
        evs @
        [Trigger \<lparr>new_major = 1, new_minor = 0, new_revision = 1,
                  old_major = 1, old_minor = 0, old_revision = 0\<rparr>,
         AppLog (NewVersionAvailable \<lparr>major = 1, minor = 0, revision = 1\<rparr>
                   \<lparr>major = 1, minor = 0, revision = 0\<rparr>),
         WriteFile ''v1.0.1'']\<rparr>) \<and>
    notifications (trace (snd (checkTasmotaReleases env (constructor (Some ''v1.0.0''))))) =
      [\<lparr>new_major = 1, new_minor = 0, new_revision = 1,
        old_major = 1, old_minor = 0, old_revision = 0\<rparr>]"
proof -
  have newer: "updateAvailable \<lparr>major = 1, minor = 0, revision = 0\<rparr>
                 \<lparr>major = 1, minor = 0, revision = 1\<rparr>"
    by (simp add: updateAvailable_def)
  have result: "checkTasmotaReleases env (constructor (Some ''v1.0.0'')) =
    (None,
     \<lparr>lastTasmotaVersion = Some \<lparr>major = 1, minor = 0, revision = 1\<rparr>,
      versionFile = Some ''v1.0.1'',
      trace =
        [AppLog (Initialized \<lparr>major = 1, minor = 0, revision = 0\<rparr>), AppLog CheckingReleases] @
        evs @
        [Trigger \<lparr>new_major = 1, new_minor = 0, new_revision = 1,
                  old_major = 1, old_minor = 0, old_revision = 0\<rparr>,
         AppLog (NewVersionAvailable \<lparr>major = 1, minor = 0, revision = 1\<rparr>
                   \<lparr>major = 1, minor = 0, revision = 0\<rparr>),
         WriteFile ''v1.0.1'']\<rparr>)"
    using assms newer text_v1_0_1
    by (simp add: constructor_v1_0_0 checkTasmotaReleases_def decideSave_def emit_def
        saveAndRemember_def saveTasmotaVersion_def triggerTokens_def)
  show ?thesis
    using getLatest_events [OF assms(1)]
    by (simp add: result notifications_append) (simp add: notifications_def)
qed

theorem update_from_1_0_0_to_1_0_1_witness:
  "checkTasmotaReleases
     \<lparr>request = Resolved 200 (Some (JObject [(''tag_name'', JString ''v1.0.1'')])),
      triggerResolves = True, writeOutcome = Written\<rparr>
     (constructor (Some ''v1.0.0'')) =
    (None,
     \<lparr>lastTasmotaVersion = Some \<lparr>major = 1, minor = 0, revision = 1\<rparr>,
      versionFile = Some ''v1.0.1'',
      trace =
        [AppLog (Initialized \<lparr>major = 1, minor = 0, revision = 0\<rparr>), AppLog CheckingReleases,
         AppLog (LatestOnGithub \<lparr>major = 1, minor = 0, revision = 1\<rparr>),
         Trigger \<lparr>new_major = 1, new_minor = 0, new_revision = 1,
                  old_major = 1, old_minor = 0, old_revision = 0\<rparr>,
         AppLog (NewVersionAvailable \<lparr>major = 1, minor = 0, revision = 1\<rparr>
                   \<lparr>major = 1, minor = 0, revision = 0\<rparr>),
         WriteFile ''v1.0.1'']\<rparr>)"
  using update_from_1_0_0_to_1_0_1
    [of "\<lparr>request = Resolved 200 (Some (JObject [(''tag_name'', JString ''v1.0.1'')])),
          triggerResolves = True, writeOutcome = Written\<rparr>"
        "[AppLog (LatestOnGithub \<lparr>major = 1, minor = 0, revision = 1\<rparr>)]"]
  by (simp add: getLatest_v1_0_1)

text \<open>
  C7. When a check fetches a version that is equal to the field
  \<^verbatim>\<open>lastTasmotaVersion\<close> or lexicographically less, the check resolves and only logs: the
  trigger is not called, the file is not written, and the field is unchanged.
\<close>

theorem not_newer_no_effect:
  assumes "lastTasmotaVersion s = Some cur"
    and "getLatestTasmotaVersion (request env) = (Inr (Some new), evs)"
    and "new = cur \<or> versionLess new cur"
  shows "checkTasmotaReleases env s =
      (None, s\<lparr>trace := trace s @ AppLog CheckingReleases # evs\<rparr>) \<and>
    notifications (AppLog CheckingReleases # evs) = [] \<and>
    writes (AppLog CheckingReleases # evs) = []"
proof -
  have "\<not> updateAvailable cur new"
    using assms(3) versionLess_irrefl versionLess_asym by (auto simp: updateAvailable_lex)
  then have "checkTasmotaReleases env s =
      (None, s\<lparr>trace := trace s @ AppLog CheckingReleases # evs\<rparr>)"
    using assms(1,2) by (simp add: checkTasmotaReleases_def decideSave_def emit_def)
  moreover have "notifications (AppLog CheckingReleases # evs) = [] \<and>
      writes (AppLog CheckingReleases # evs) = []"
    using getLatest_events [OF assms(2)] by (simp add: notifications_def writes_def)
  ultimately show ?thesis by simp
qed

theorem not_newer_no_effect_witness:
  "checkTasmotaReleases
     \<lparr>request = Resolved 200 (Some (JObject [(''tag_name'', JString ''v0.9.9'')])),
      triggerResolves = True, writeOutcome = Written\<rparr>
     (constructor (Some ''v1.0.0'')) =
   (None,
    \<lparr>lastTasmotaVersion = Some \<lparr>major = 1, minor = 0, revision = 0\<rparr>,
     versionFile = Some ''v1.0.0'',
     trace = [AppLog (Initialized \<lparr>major = 1, minor = 0, revision = 0\<rparr>),
              AppLog CheckingReleases,
              AppLog (LatestOnGithub \<lparr>major = 0, minor = 9, revision = 9\<rparr>)]\<rparr>) \<and>
   checkTasmotaReleases
     \<lparr>request = Resolved 200 (Some (JObject [(''tag_name'', JString ''v1.0.0'')])),
      triggerResolves = True, writeOutcome = Written\<rparr>
     (constructor (Some ''v1.0.0'')) =
   (None,
    \<lparr>lastTasmotaVersion = Some \<lparr>major = 1, minor = 0, revision = 0\<rparr>,
     versionFile = Some ''v1.0.0'',
     trace = [AppLog (Initialized \<lparr>major = 1, minor = 0, revision = 0\<rparr>),
              AppLog CheckingReleases,
              AppLog (LatestOnGithub \<lparr>major = 1, minor = 0, revision = 0\<rparr>)]\<rparr>)"
proof -
  have less: "versionLess \<lparr>major = 0, minor = 9, revision = 9\<rparr>
                \<lparr>major = 1, minor = 0, revision = 0\<rparr>"
    by (simp add: versionLess_def less_prod_def)
  have start: "lastTasmotaVersion (constructor (Some ''v1.0.0'')) =
                 Some \<lparr>major = 1, minor = 0, revision = 0\<rparr>"
    by (simp add: constructor_v1_0_0)
  show ?thesis
    using not_newer_no_effect
        [of "constructor (Some ''v1.0.0'')" "\<lparr>major = 1, minor = 0, revision = 0\<rparr>"
            "\<lparr>request = Resolved 200 (Some (JObject [(''tag_name'', JString ''v0.9.9'')])),
              triggerResolves = True, writeOutcome = Written\<rparr>"
            "\<lparr>major = 0, minor = 9, revision = 9\<rparr>"
            "[AppLog (LatestOnGithub \<lparr>major = 0, minor = 9, revision = 9\<rparr>)]"]
      not_newer_no_effect
        [of "constructor (Some ''v1.0.0'')" "\<lparr>major = 1, minor = 0, revision = 0\<rparr>"
            "\<lparr>request = Resolved 200 (Some (JObject [(''tag_name'', JString ''v1.0.0'')])),
              triggerResolves = True, writeOutcome = Written\<rparr>"
            "\<lparr>major = 1, minor = 0, revision = 0\<rparr>"
            "[AppLog (LatestOnGithub \<lparr>major = 1, minor = 0, revision = 0\<rparr>)]"]
      less start
    by (simp add: getLatest_v0_9_9 getLatest_v1_0_0 constructor_v1_0_0)
qed

text \<open>
  C8. When the write of \<^verbatim>\<open>saveTasmotaVersion\<close> throws, the exception is caught and logged:
  the call returns, the check that found the newer version \<open>v\<close> resolves, and the field
  \<^verbatim>\<open>lastTasmotaVersion\<close> becomes \<open>v\<close> all the same.
\<close>

theorem write_failure_caught:
  assumes "lastTasmotaVersion s = Some cur"
    and "getLatestTasmotaVersion (request env) = (Inr (Some v), evs)"
    and "updateAvailable cur v"
    and "triggerResolves env"
    and "writeOutcome env = WriteThrows left"
  shows "saveTasmotaVersion v (writeOutcome env) (versionFile s) =
      (left, [WriteFile (versionText v), AppLog WriteError]) \<and>
    fst (checkTasmotaReleases env s) = None \<and>
    lastTasmotaVersion (snd (checkTasmotaReleases env s)) = Some v \<and>
    last (trace (snd (checkTasmotaReleases env s))) = AppLog WriteError"
  using assms
  by (simp add: checkTasmotaReleases_def decideSave_def emit_def saveAndRemember_def
      saveTasmotaVersion_def)

theorem write_failure_caught_witness:
  "checkTasmotaReleases
     \<lparr>request = Resolved 200 (Some (JObject [(''tag_name'', JString ''v1.0.1'')])),
      triggerResolves = True, writeOutcome = WriteThrows (Some ''v1.0.0'')\<rparr>
     (constructor (Some ''v1.0.0'')) =
    (None,
     \<lparr>lastTasmotaVersion = Some \<lparr>major = 1, minor = 0, revision = 1\<rparr>,
      versionFile = Some ''v1.0.0'',
      trace =
        [AppLog (Initialized \<lparr>major = 1, minor = 0, revision = 0\<rparr>), AppLog CheckingReleases,
         AppLog (LatestOnGithub \<lparr>major = 1, minor = 0, revision = 1\<rparr>),
         Trigger \<lparr>new_major = 1, new_minor = 0, new_revision = 1,
                  old_major = 1, old_minor = 0, old_revision = 0\<rparr>,
         AppLog (NewVersionAvailable \<lparr>major = 1, minor = 0, revision = 1\<rparr>
                   \<lparr>major = 1, minor = 0, revision = 0\<rparr>),
         WriteFile ''v1.0.1'', AppLog WriteError]\<rparr>)"
proof -
  have newer: "updateAvailable \<lparr>major = 1, minor = 0, revision = 0\<rparr>
                 \<lparr>major = 1, minor = 0, revision = 1\<rparr>"
    by (simp add: updateAvailable_def)
  show ?thesis
    using write_failure_caught
        [of "constructor (Some ''v1.0.0'')" "\<lparr>major = 1, minor = 0, revision = 0\<rparr>"
            "\<lparr>request = Resolved 200 (Some (JObject [(''tag_name'', JString ''v1.0.1'')])),
              triggerResolves = True, writeOutcome = WriteThrows (Some ''v1.0.0'')\<rparr>"
            "\<lparr>major = 1, minor = 0, revision = 1\<rparr>"
            "[AppLog (LatestOnGithub \<lparr>major = 1, minor = 0, revision = 1\<rparr>)]"
            "Some ''v1.0.0''"]
      newer text_v1_0_1
    by (simp add: getLatest_v1_0_1 constructor_v1_0_0 checkTasmotaReleases_def decideSave_def
        emit_def saveAndRemember_def triggerTokens_def)
qed

text \<open>
  C9. A response with status 200 whose body is JSON and whose tag is not of the form
  of the pattern is claimed to give the sentinel (0,0,0) and not \<^verbatim>\<open>null\<close>. That holds when
  the tag is a string: the check then goes on with (0,0,0), finds no update, since no
  version is below (0,0,0), and resolves with nothing but its log lines.
\<close>

theorem malformed_string_tag_sentinel:
  assumes "request env = Resolved 200 (Some info)"
    and "tagName info = Inr (Some (JString tag))"
    and "\<not> matchesPattern tag"
    and "lastTasmotaVersion s = Some cur"
  shows "getLatestTasmotaVersion (request env) =
      (Inr (Some sentinel), [AppLog (LatestOnGithub sentinel)]) \<and>
    checkTasmotaReleases env s =
      (None, s\<lparr>trace := trace s @ [AppLog CheckingReleases, AppLog (LatestOnGithub sentinel)]\<rparr>)"
  using assms parseVersionString_no_match [of tag] not_updateAvailable_sentinel [of cur]
  by (simp add: getLatestTasmotaVersion_def parseVersionValue_def checkTasmotaReleases_def
      decideSave_def emit_def)

theorem malformed_string_tag_sentinel_witness:
  "getLatestTasmotaVersion (Resolved 200 (Some (JObject [(''tag_name'', JString ''latest'')]))) =
     (Inr (Some sentinel), [AppLog (LatestOnGithub sentinel)]) \<and>
   checkTasmotaReleases
     \<lparr>request = Resolved 200 (Some (JObject [(''tag_name'', JString ''latest'')])),
      triggerResolves = True, writeOutcome = Written\<rparr>
     (constructor (Some ''v1.0.0'')) =
    (None,
     \<lparr>lastTasmotaVersion = Some \<lparr>major = 1, minor = 0, revision = 0\<rparr>,
      versionFile = Some ''v1.0.0'',
      trace =
        [AppLog (Initialized \<lparr>major = 1, minor = 0, revision = 0\<rparr>), AppLog CheckingReleases,
         AppLog (LatestOnGithub sentinel)]\<rparr>)"
proof -
  have tag: "tagName (JObject [(''tag_name'', JString ''latest'')]) = Inr (Some (JString ''latest''))"
    by (simp add: tagName_def)
  have no: "\<not> matchesPattern ''latest''"
    by (simp add: matchesPattern_iff versionMatch_def literal_def)
  show ?thesis
    using malformed_string_tag_sentinel
        [of "\<lparr>request = Resolved 200 (Some (JObject [(''tag_name'', JString ''latest'')])),
              triggerResolves = True, writeOutcome = Written\<rparr>"
            "JObject [(''tag_name'', JString ''latest'')]" "''latest''"
            "constructor (Some ''v1.0.0'')" "\<lparr>major = 1, minor = 0, revision = 0\<rparr>"]
      tag no
    by (simp add: constructor_v1_0_0)
qed

text \<open>
  A tag that is not a string, or a body without a tag, makes \<^verbatim>\<open>versionString.match\<close>
  throw a \<^verbatim>\<open>TypeError\<close>: the call returns neither the sentinel nor \<^verbatim>\<open>null\<close>.
\<close>

theorem non_string_tag_throws:
  "getLatestTasmotaVersion (Resolved 200 (Some (JObject [(''tag_name'', JNumber 13)]))) =
     (Inl TypeError, []) \<and>
   fst (getLatestTasmotaVersion (Resolved 200 (Some (JObject [(''tag_name'', JNumber 13)]))))
     \<noteq> Inr (Some sentinel)"
  by (simp add: getLatestTasmotaVersion_def tagName_def parseVersionValue_def)

text \<open>
  C10. The field \<^verbatim>\<open>lastTasmotaVersion\<close> never goes down: after the constructor and any
  number of checks it holds a version, and one more check leaves that version in place
  or puts a lexicographically greater one there.
\<close>

theorem lastTasmotaVersion_monotone:
  "\<exists>cur cur'.
     lastTasmotaVersion (checks envs (constructor file)) = Some cur \<and>
     lastTasmotaVersion (snd (checkTasmotaReleases env (checks envs (constructor file)))) =
       Some cur' \<and>
     (cur' = cur \<or> versionLess cur cur')"
proof -
  obtain cur where cur: "lastTasmotaVersion (checks envs (constructor file)) = Some cur"
    using checks_last [OF constructor_last] by blast
  from check_last [OF cur, of env] show ?thesis
    using cur by (auto simp: updateAvailable_lex)
qed

end
